theory Spec2Isabelle
  imports Complex_Main "HOL-Library.Multiset"
begin

section \<open>Python values\<close>

text \<open>
  The strategies compute on Python floats.  A float is modelled as a real number or NaN;
  arithmetic on defined values is exact (rounding, overflow and the infinities are not
  modelled).  NaN propagates through arithmetic and makes every ordering comparison and
  every equality test false, as in Python.  An exception is a value of \<open>py_error\<close>.
\<close>

datatype py_error = ZeroDivisionError | ValueError | IndexError | OverflowError

datatype pyfloat = NaN | Fin real

fun isnan :: "pyfloat \<Rightarrow> bool" where
  "isnan NaN = True"
| "isnan (Fin x) = False"

fun flt :: "pyfloat \<Rightarrow> pyfloat \<Rightarrow> bool" where
  "flt (Fin a) (Fin b) = (a < b)"
| "flt _ _ = False"

fun fle :: "pyfloat \<Rightarrow> pyfloat \<Rightarrow> bool" where
  "fle (Fin a) (Fin b) = (a \<le> b)"
| "fle _ _ = False"

definition fgt :: "pyfloat \<Rightarrow> pyfloat \<Rightarrow> bool" where
  "fgt a b = flt b a"

fun feq :: "pyfloat \<Rightarrow> pyfloat \<Rightarrow> bool" where
  "feq (Fin a) (Fin b) = (a = b)"
| "feq _ _ = False"

fun fadd :: "pyfloat \<Rightarrow> pyfloat \<Rightarrow> pyfloat" where
  "fadd (Fin a) (Fin b) = Fin (a + b)"
| "fadd _ _ = NaN"

fun fsub :: "pyfloat \<Rightarrow> pyfloat \<Rightarrow> pyfloat" where
  "fsub (Fin a) (Fin b) = Fin (a - b)"
| "fsub _ _ = NaN"

fun fmul :: "pyfloat \<Rightarrow> pyfloat \<Rightarrow> pyfloat" where
  "fmul (Fin a) (Fin b) = Fin (a * b)"
| "fmul _ _ = NaN"

text \<open>Float division: a zero divisor raises, whatever the dividend.\<close>

fun fdiv :: "pyfloat \<Rightarrow> pyfloat \<Rightarrow> py_error + pyfloat" where
  "fdiv x (Fin b) =
     (if b = 0 then Inl ZeroDivisionError
      else (case x of NaN \<Rightarrow> Inr NaN | Fin a \<Rightarrow> Inr (Fin (a / b))))"
| "fdiv x NaN = Inr NaN"

text \<open>\<open>max(a, b)\<close> keeps its first argument unless the second is strictly greater.\<close>

definition py_max :: "pyfloat \<Rightarrow> pyfloat \<Rightarrow> pyfloat" where
  "py_max a b = (if fgt b a then b else a)"

text \<open>\<open>int(x)\<close> truncates towards zero and raises on NaN.\<close>

fun py_int :: "pyfloat \<Rightarrow> py_error + int" where
  "py_int NaN = Inl ValueError"
| "py_int (Fin r) = Inr (if 0 \<le> r then \<lfloor>r\<rfloor> else \<lceil>r\<rceil>)"

text \<open>Truth value of a float used as a condition: every value but zero is true.\<close>

fun truthy :: "pyfloat \<Rightarrow> bool" where
  "truthy NaN = True"
| "truthy (Fin x) = (x \<noteq> 0)"


section \<open>MACD-KDJ-ATR strategy (src/macd\_kdj\_atr/strategy.py)\<close>

text \<open>
  The values \<open>MACDKDJStrategy.next\<close> reads on one bar: the indicator lines at index 0
  and -1, the position size held by the broker and the account value.
\<close>

record bar =
  kdj_k :: pyfloat
  kdj_d :: pyfloat
  kdj_j :: pyfloat
  kdj_k_pre :: pyfloat
  kdj_d_pre :: pyfloat
  kdj_j_pre :: pyfloat
  macd_val :: pyfloat
  signal_val :: pyfloat
  hist_val :: pyfloat
  vol :: pyfloat
  avg_vol :: pyfloat
  close_px :: pyfloat
  atr :: pyfloat
  rsi :: pyfloat
  sma10 :: pyfloat
  position_size :: int
  broker_value :: pyfloat

datatype order = Buy int | Sell int | CloseAll

text \<open>
  The strategy's own attributes: \<open>self.order\<close>, \<open>self.buy_count\<close> and
  \<open>self.last_buy_price\<close>.
\<close>

record trade_state =
  pending :: "order option"
  buy_count :: int
  last_buy_price :: pyfloat

definition init_state :: trade_state where
  "init_state = \<lparr>pending = None, buy_count = 0, last_buy_price = Fin 0\<rparr>"

text \<open>
  The size expression \<open>int(max((self.broker.getvalue() * 0.005) / (self.ATR[0] * 300 * 0.1), 1))\<close>,
  written out identically in \<open>_enter_long\<close>, \<open>_enter_short\<close>, \<open>_buy_more\<close> and \<open>_sell_more\<close>.
\<close>

definition order_size :: "pyfloat \<Rightarrow> pyfloat \<Rightarrow> py_error + int" where
  "order_size value a =
     (case fdiv (fmul value (Fin 0.005)) (fmul (fmul a (Fin 300)) (Fin 0.1)) of
        Inl e \<Rightarrow> Inl e
      | Inr q \<Rightarrow> py_int (py_max q (Fin 1)))"

definition enter_long :: "trade_state \<Rightarrow> bar \<Rightarrow> py_error + trade_state" where
  "enter_long st b =
     (case order_size (broker_value b) (atr b) of
        Inl e \<Rightarrow> Inl e
      | Inr n \<Rightarrow> Inr (st\<lparr>pending := Some (Buy n), last_buy_price := close_px b, buy_count := 1\<rparr>))"

definition enter_short :: "trade_state \<Rightarrow> bar \<Rightarrow> py_error + trade_state" where
  "enter_short st b =
     (case order_size (broker_value b) (atr b) of
        Inl e \<Rightarrow> Inl e
      | Inr n \<Rightarrow> Inr (st\<lparr>pending := Some (Sell n), last_buy_price := close_px b, buy_count := 1\<rparr>))"

definition buy_more :: "trade_state \<Rightarrow> bar \<Rightarrow> py_error + trade_state" where
  "buy_more st b =
     (case order_size (broker_value b) (atr b) of
        Inl e \<Rightarrow> Inl e
      | Inr n \<Rightarrow> Inr (st\<lparr>pending := Some (Buy n), last_buy_price := close_px b,
                         buy_count := buy_count st + 1\<rparr>))"

definition sell_more :: "trade_state \<Rightarrow> bar \<Rightarrow> py_error + trade_state" where
  "sell_more st b =
     (case order_size (broker_value b) (atr b) of
        Inl e \<Rightarrow> Inl e
      | Inr n \<Rightarrow> Inr (st\<lparr>pending := Some (Sell n), last_buy_price := close_px b,
                         buy_count := buy_count st + 1\<rparr>))"

text \<open>
  \<open>_exit_all\<close>: \<open>CloseAll\<close> stands for the value of \<open>self.close()\<close> that the source
  stores in \<open>self.order\<close>; carrying it out is the execution harness's part.
\<close>

definition exit_all :: "trade_state \<Rightarrow> py_error + trade_state" where
  "exit_all st = Inr (st\<lparr>pending := Some CloseAll, buy_count := 0\<rparr>)"

text \<open>The conditions of \<open>next\<close>, in the order the source tests them.\<close>

definition long_pyramid_cond :: "trade_state \<Rightarrow> bar \<Rightarrow> bool" where
  "long_pyramid_cond st b \<longleftrightarrow>
     fgt (close_px b) (fadd (last_buy_price st) (fmul (Fin 0.4) (atr b)))
     \<and> buy_count st < 3 \<and> fgt (vol b) (avg_vol b)"

definition long_stop_cond :: "trade_state \<Rightarrow> bar \<Rightarrow> bool" where
  "long_stop_cond st b \<longleftrightarrow>
     flt (close_px b) (fsub (last_buy_price st) (fmul (Fin 3) (atr b)))"

definition long_profit_cond :: "trade_state \<Rightarrow> bar \<Rightarrow> bool" where
  "long_profit_cond st b \<longleftrightarrow>
     fgt (close_px b) (fadd (last_buy_price st) (fmul (Fin 2) (atr b)))"

definition short_pyramid_cond :: "trade_state \<Rightarrow> bar \<Rightarrow> bool" where
  "short_pyramid_cond st b \<longleftrightarrow>
     flt (close_px b) (fsub (last_buy_price st) (fmul (Fin 0.5) (atr b)))
     \<and> buy_count st < 3"

definition short_stop_cond :: "trade_state \<Rightarrow> bar \<Rightarrow> bool" where
  "short_stop_cond st b \<longleftrightarrow>
     fgt (close_px b) (fadd (last_buy_price st) (fmul (Fin 3) (atr b)))"

definition short_exit_cond :: "bar \<Rightarrow> bool" where
  "short_exit_cond b \<longleftrightarrow>
     fgt (hist_val b) (Fin 0)
     \<and> (flt (kdj_j_pre b) (kdj_k_pre b) \<and> flt (kdj_k_pre b) (kdj_j b))
     \<and> (flt (kdj_j_pre b) (kdj_d_pre b) \<and> flt (kdj_d_pre b) (kdj_j b))"

definition long_entry_cond :: "bar \<Rightarrow> bool" where
  "long_entry_cond b \<longleftrightarrow>
     flt (hist_val b) (Fin 0)
     \<and> (flt (kdj_j_pre b) (kdj_k_pre b) \<and> flt (kdj_k_pre b) (kdj_j b))
     \<and> (flt (kdj_j_pre b) (kdj_d_pre b) \<and> flt (kdj_d_pre b) (kdj_j b))
     \<and> flt (rsi b) (Fin 70)"

definition short_entry_cond :: "bar \<Rightarrow> bool" where
  "short_entry_cond b \<longleftrightarrow>
     fgt (macd_val b) (Fin 0) \<and> fgt (signal_val b) (Fin 0)
     \<and> (fgt (kdj_j_pre b) (kdj_k_pre b) \<and> fgt (kdj_k_pre b) (kdj_j b))
     \<and> (fgt (kdj_j_pre b) (kdj_d_pre b) \<and> fgt (kdj_d_pre b) (kdj_j b))
     \<and> flt (close_px b) (sma10 b)
     \<and> fgt (rsi b) (Fin 30)"

text \<open>
  \<open>MACDKDJStrategy.next\<close>: one bar.  A pending order (\<open>self.order\<close> set) makes it
  return at once.  The result is the updated strategy state, whose \<open>pending\<close> field holds
  the order issued on this bar, or the exception raised.
\<close>

definition next_bar :: "trade_state \<Rightarrow> bar \<Rightarrow> py_error + trade_state" where
  "next_bar st b =
     (if pending st \<noteq> None then Inr st
      else if position_size b > 0 then
        (if long_pyramid_cond st b then buy_more st b
         else if long_stop_cond st b then exit_all st
         else if long_profit_cond st b then exit_all st
         else Inr st)
      else if position_size b < 0 then
        (if short_pyramid_cond st b then sell_more st b
         else if short_stop_cond st b then exit_all st
         else if short_exit_cond b then exit_all st
         else Inr st)
      else
        (if long_entry_cond b then enter_long st b
         else if short_entry_cond b then enter_short st b
         else Inr st))"




text \<open>
  The long-entry condition in the specification's words: histogram below zero, prior J
  below prior K and prior D, current J above current K and current D, RSI below 70.
\<close>

definition spec_long_entry :: "bar \<Rightarrow> bool" where
  "spec_long_entry b \<longleftrightarrow>
     flt (hist_val b) (Fin 0)
     \<and> flt (kdj_j_pre b) (kdj_k_pre b) \<and> flt (kdj_j_pre b) (kdj_d_pre b)
     \<and> fgt (kdj_j b) (kdj_k b) \<and> fgt (kdj_j b) (kdj_d b)
     \<and> flt (rsi b) (Fin 70)"

text \<open>
  Sample bars.  On \<open>entry_bar\<close> the position is flat, J rises from 10 to 30 past the prior
  K and D (both 20) while the current K and D are 40.  On \<open>add_bar\<close> a long position is
  held and the close is above the last entry price by more than twice the ATR.
\<close>

definition entry_bar :: bar where
  "entry_bar =
     \<lparr>kdj_k = Fin 40, kdj_d = Fin 40, kdj_j = Fin 30,
      kdj_k_pre = Fin 20, kdj_d_pre = Fin 20, kdj_j_pre = Fin 10,
      macd_val = Fin (-2), signal_val = Fin (-1), hist_val = Fin (-1),
      vol = Fin 1000, avg_vol = Fin 900, close_px = Fin 100, atr = Fin 2.5,
      rsi = Fin 50, sma10 = Fin 99, position_size = 0, broker_value = Fin 1000000\<rparr>"

definition add_bar :: bar where
  "add_bar =
     \<lparr>kdj_k = Fin 50, kdj_d = Fin 50, kdj_j = Fin 50,
      kdj_k_pre = Fin 50, kdj_d_pre = Fin 50, kdj_j_pre = Fin 50,
      macd_val = Fin 1, signal_val = Fin 1, hist_val = Fin 0,
      vol = Fin 1200, avg_vol = Fin 900, close_px = Fin 110, atr = Fin 2.5,
      rsi = Fin 60, sma10 = Fin 105, position_size = 66, broker_value = Fin 1000000\<rparr>"

definition held_state :: trade_state where
  "held_state = \<lparr>pending = None, buy_count = 1, last_buy_price = Fin 100\<rparr>"


section \<open>Growth-momentum selection strategy (src/growth\_trend\_resonance/strategy.py)\<close>

subsection \<open>Gated momentum indicator\<close>











subsection \<open>Universe and parameters\<close>

text \<open>
  One data feed on the rebalance date: its name, the current value of each indicator the
  strategy keeps for it, and the lines \<open>rebalance\<close> reads from the feed itself.  The runner
  registers one feed per distinct \<open>sec_code\<close>, so the dictionaries keyed by name and the
  search \<open>next(d for d in self.datas if d._name == n)\<close> give back the feed the name came
  from; the model passes the feed's record where the source passes its name.
\<close>

record instrument =
  d_name :: string
  ttm :: pyfloat
  acc :: pyfloat
  npap :: pyfloat
  solv :: pyfloat
  roe :: pyfloat
  vol_sma :: pyfloat
  mtm :: pyfloat
  rev_val :: pyfloat
  gro :: pyfloat
  recent_issuance :: pyfloat
  is_ST :: pyfloat
  high :: pyfloat
  low :: pyfloat
  volume :: pyfloat

record sel_params =
  sel_TTM :: pyfloat
  sel_ACC :: pyfloat
  sel_NPAP :: pyfloat
  sel_Solvency :: pyfloat
  sel_ROE :: pyfloat
  sel_daily_value :: pyfloat
  sel_analyst_rev :: pyfloat
  sel_analyst_growth :: pyfloat
  selnum_final :: nat
  reserve :: pyfloat

definition default_params :: sel_params where
  "default_params =
     \<lparr>sel_TTM = Fin 0.3, sel_ACC = Fin 0.5, sel_NPAP = Fin 0.5, sel_Solvency = Fin (-1),
      sel_ROE = Fin 0.01, sel_daily_value = Fin 0.9, sel_analyst_rev = Fin 0.2,
      sel_analyst_growth = Fin 0.2, selnum_final = 30, reserve = Fin 0.05\<rparr>"

subsection \<open>Ranking\<close>

text \<open>
  \<open>sorted(xs, key=f, reverse=True)\<close>: descending by key, entries with equal keys in their
  original order.  The only comparison is \<open><\<close> on keys.  On keys without NaN this is
  Python's result; with a NaN key Python's result is still a rearrangement of the input,
  but which one depends on the comparisons its algorithm happens to make.
\<close>

fun insort_desc :: "('a \<Rightarrow> pyfloat) \<Rightarrow> 'a \<Rightarrow> 'a list \<Rightarrow> 'a list" where
  "insort_desc f x [] = [x]"
| "insort_desc f x (y # ys) =
     (if flt (f x) (f y) then y # insort_desc f x ys else x # y # ys)"

definition sorted_desc :: "('a \<Rightarrow> pyfloat) \<Rightarrow> 'a list \<Rightarrow> 'a list" where
  "sorted_desc f xs = foldr (insort_desc f) xs []"

subsection \<open>Base pool and hard filters\<close>

definition top_third :: "instrument list \<Rightarrow> instrument list" where
  "top_third universe = take (length universe div 3) (sorted_desc ttm universe)"

definition acc_vals :: "instrument list \<Rightarrow> instrument list" where
  "acc_vals universe =
     sorted_desc acc (filter (\<lambda>d. fgt (acc d) (Fin 0)) (top_third universe))"

definition base_pool :: "instrument list \<Rightarrow> instrument list" where
  "base_pool universe = take (length (acc_vals universe) div 2) (acc_vals universe)"

definition passes_filters :: "pyfloat \<Rightarrow> instrument \<Rightarrow> bool" where
  "passes_filters vol_thresh d \<longleftrightarrow>
     \<not> (fle (npap d) (Fin 0.5) \<or> fle (solv d) (Fin (-1)) \<or> fle (roe d) (Fin 0.01))
     \<and> \<not> (flt (vol_sma d) vol_thresh \<or> truthy (recent_issuance d) \<or> truthy (is_ST d))"

text \<open>
  The eligible set.  \<open>np.percentile\<close> is NumPy's; the model takes it as the parameter
  \<open>pct\<close>, applied to the base pool's average traded values.
\<close>

definition eligible_set ::
  "(pyfloat list \<Rightarrow> py_error + pyfloat) \<Rightarrow> sel_params \<Rightarrow> instrument list
     \<Rightarrow> py_error + instrument list" where
  "eligible_set pct p universe =
     (let base = base_pool universe in
      case pct (map vol_sma base) of
        Inl e \<Rightarrow> Inl e
      | Inr vol_thresh \<Rightarrow>
          (let eligible = filter (passes_filters vol_thresh) base
           in Inr (if length eligible < selnum_final p then base else eligible)))"

subsection \<open>Normalization and composite score\<close>

text \<open>\<open>min(v)\<close> and \<open>max(v)\<close>: the first extreme entry; an empty argument raises.\<close>

fun py_min_of :: "pyfloat list \<Rightarrow> py_error + pyfloat" where
  "py_min_of [] = Inl ValueError"
| "py_min_of (x # xs) = Inr (foldl (\<lambda>m y. if flt y m then y else m) x xs)"

fun py_max_of :: "pyfloat list \<Rightarrow> py_error + pyfloat" where
  "py_max_of [] = Inl ValueError"
| "py_max_of (x # xs) = Inr (foldl (\<lambda>m y. if fgt y m then y else m) x xs)"

text \<open>A list comprehension whose element expression may raise: the first exception wins.\<close>

fun collect :: "('e + 'a) list \<Rightarrow> 'e + 'a list" where
  "collect [] = Inr []"
| "collect (r # rs) =
     (case r of
        Inl e \<Rightarrow> Inl e
      | Inr v \<Rightarrow> (case collect rs of Inl e \<Rightarrow> Inl e | Inr vs \<Rightarrow> Inr (v # vs)))"

text \<open>
  The local function \<open>norm\<close> of \<open>rebalance\<close> (named \<open>norm_arr\<close> here), after the
  expression it evaluates for each entry.
\<close>

definition norm_entry :: "pyfloat \<Rightarrow> pyfloat \<Rightarrow> pyfloat \<Rightarrow> py_error + pyfloat" where
  "norm_entry mn mx x =
     (if feq mn mx then Inr (Fin 50)
      else (case fdiv (fsub x mn) (fsub mx mn) of
              Inl e \<Rightarrow> Inl e
            | Inr q \<Rightarrow> Inr (fmul q (Fin 100))))"

definition norm_arr :: "pyfloat list \<Rightarrow> py_error + pyfloat list" where
  "norm_arr arr =
     (let v = filter (\<lambda>x. \<not> isnan x) arr in
      case py_min_of v of
        Inl e \<Rightarrow> Inl e
      | Inr mn \<Rightarrow>
          (case py_max_of v of
             Inl e \<Rightarrow> Inl e
           | Inr mx \<Rightarrow> collect (map (norm_entry mn mx) arr)))"

text \<open>
  For stating results: the defined values of a factor list, and min-max scaling to
  \<open>[0, 100]\<close> in the specification's words, with 50 when minimum and maximum coincide.
\<close>

definition defined_vals :: "pyfloat list \<Rightarrow> real list" where
  "defined_vals arr = concat (map (\<lambda>v. case v of NaN \<Rightarrow> [] | Fin x \<Rightarrow> [x]) arr)"

definition scaled :: "real \<Rightarrow> real \<Rightarrow> pyfloat \<Rightarrow> pyfloat" where
  "scaled mn mx v =
     (if mn = mx then Fin 50
      else (case v of NaN \<Rightarrow> NaN | Fin x \<Rightarrow> Fin ((x - mn) / (mx - mn) * 100)))"

text \<open>The nine normalized factor lists, in the order the source computes them.\<close>

definition factors :: "(instrument \<Rightarrow> pyfloat) list" where
  "factors = [ttm, acc, npap, solv, roe, vol_sma, mtm, rev_val, gro]"

definition norm_all :: "instrument list \<Rightarrow> py_error + pyfloat list list" where
  "norm_all eligible = collect (map (\<lambda>f. norm_arr (map f eligible)) factors)"

definition score :: "sel_params \<Rightarrow> pyfloat list list \<Rightarrow> nat \<Rightarrow> pyfloat" where
  "score p ns i =
     fadd (fadd (fadd (fadd (fadd (fadd (fadd (fadd
       (fmul (sel_TTM p) (ns ! 0 ! i))
       (fmul (sel_ACC p) (ns ! 1 ! i)))
       (fmul (sel_NPAP p) (ns ! 2 ! i)))
       (fmul (fsub (Fin 1) (sel_Solvency p)) (ns ! 3 ! i)))
       (fmul (sel_ROE p) (ns ! 4 ! i)))
       (fmul (sel_daily_value p) (ns ! 5 ! i)))
       (ns ! 6 ! i))
       (fmul (sel_analyst_rev p) (ns ! 7 ! i)))
       (fmul (sel_analyst_growth p) (ns ! 8 ! i))"

definition composite ::
  "sel_params \<Rightarrow> instrument list \<Rightarrow> py_error + (instrument \<times> pyfloat) list" where
  "composite p eligible =
     (case norm_all eligible of
        Inl e \<Rightarrow> Inl e
      | Inr ns \<Rightarrow> Inr (map (\<lambda>i. (eligible ! i, score p ns i)) [0..<length eligible]))"

subsection \<open>Final selection and orders\<close>

definition halted :: "instrument \<Rightarrow> bool" where
  "halted d \<longleftrightarrow> feq (high d) (low d) \<or> feq (volume d) (Fin 0)"

text \<open>The loop \<open>while len(final) < selnum_final and i < len(comp)\<close> over the sorted list.\<close>

function final_loop ::
  "nat \<Rightarrow> (instrument \<times> pyfloat) list \<Rightarrow> instrument list \<Rightarrow> nat \<Rightarrow> instrument list" where
  "final_loop n ranked final i =
     (if length final < n \<and> i < length ranked
      then final_loop n ranked
             (if \<not> halted (fst (ranked ! i)) then final @ [fst (ranked ! i)] else final) (Suc i)
      else final)"
  by pat_completeness auto
termination
  by (relation "measure (\<lambda>(n, ranked, final, i). length ranked - i)") auto

declare final_loop.simps [simp del]

definition target_orders ::
  "pyfloat \<Rightarrow> instrument list \<Rightarrow> instrument list \<Rightarrow> (string \<times> pyfloat) list" where
  "target_orders tgt universe final =
     map (\<lambda>d. (d_name d, if d_name d \<in> set (map d_name final) then tgt else Fin 0)) universe"

text \<open>
  \<open>StockSelectStrategy.rebalance\<close>: the instruments selected and the target-percent
  orders, one per feed, or the exception raised.
\<close>

definition rebalance ::
  "(pyfloat list \<Rightarrow> py_error + pyfloat) \<Rightarrow> sel_params \<Rightarrow> pyfloat \<Rightarrow> instrument list
     \<Rightarrow> py_error + (instrument list \<times> (string \<times> pyfloat) list)" where
  "rebalance pct p tgt universe =
     (case eligible_set pct p universe of
        Inl e \<Rightarrow> Inl e
      | Inr eligible \<Rightarrow>
          (case composite p eligible of
             Inl e \<Rightarrow> Inl e
           | Inr scored \<Rightarrow>
               (let final = final_loop (selnum_final p) (sorted_desc snd scored) [] 0
                in Inr (final, target_orders tgt universe final))))"

subsection \<open>Rebalance scheduler\<close>

record date =
  year :: nat
  month :: nat
  day :: nat

definition is_leap :: "nat \<Rightarrow> bool" where
  "is_leap y \<longleftrightarrow> y mod 4 = 0 \<and> (y mod 100 \<noteq> 0 \<or> y mod 400 = 0)"

definition days_in_month :: "nat \<Rightarrow> nat \<Rightarrow> nat" where
  "days_in_month y m =
     (if m = 2 then (if is_leap y then 29 else 28)
      else if m = 4 \<or> m = 6 \<or> m = 9 \<or> m = 11 then 30 else 31)"

text \<open>\<open>dt - timedelta(days=1)\<close>; the day before 0001-01-01 is out of range.\<close>

definition minus_one_day :: "date \<Rightarrow> py_error + date" where
  "minus_one_day dt =
     (if day dt > 1 then Inr (dt\<lparr>day := day dt - 1\<rparr>)
      else if month dt > 1
        then Inr (dt\<lparr>month := month dt - 1, day := days_in_month (year dt) (month dt - 1)\<rparr>)
      else if year dt > 1 then Inr \<lparr>year = year dt - 1, month = 12, day = 31\<rparr>
      else Inl OverflowError)"

definition target :: "(nat \<times> nat) set" where
  "target = {(1, 31), (4, 30), (7, 15), (8, 31), (10, 31)}"

record sel_state =
  last_rebalance :: "date option"
  target_pct :: pyfloat

text \<open>\<open>StockSelectStrategy.__init__\<close>: the indicator objects aside, two attributes.\<close>

definition init_sel :: "sel_params \<Rightarrow> py_error + sel_state" where
  "init_sel p =
     (case fdiv (fsub (Fin 1) (reserve p)) (Fin (real (selnum_final p))) of
        Inl e \<Rightarrow> Inl e
      | Inr t \<Rightarrow> Inr \<lparr>last_rebalance = None, target_pct = t\<rparr>)"

text \<open>
  \<open>StockSelectStrategy.next\<close> on date \<open>dt\<close> (read from the first feed) with the feeds'
  current values: the new strategy state and the orders issued.
\<close>

definition next_sel ::
  "(pyfloat list \<Rightarrow> py_error + pyfloat) \<Rightarrow> sel_params \<Rightarrow> sel_state \<Rightarrow> date \<Rightarrow> instrument list
     \<Rightarrow> py_error + (sel_state \<times> (string \<times> pyfloat) list)" where
  "next_sel pct p st dt universe =
     (if universe = [] then Inl IndexError
      else if last_rebalance st = Some dt then Inr (st, [])
      else (case minus_one_day dt of
              Inl e \<Rightarrow> Inl e
            | Inr prior \<Rightarrow>
                if (month prior, day prior) \<in> target
                then (case rebalance pct p (target_pct st) universe of
                        Inl e \<Rightarrow> Inl e
                      | Inr (final, orders) \<Rightarrow> Inr (st\<lparr>last_rebalance := Some dt\<rparr>, orders))
                else Inr (st, [])))"

subsection \<open>Sample inputs\<close>

text \<open>
  NumPy's percentile with its default linear interpolation between the two nearest
  ranks, on a list with at least one entry; a NaN entry makes the result NaN.  What
  NumPy does with an empty list differs between its releases; the general results below
  hold for every function \<open>pct\<close>, and this one is applied to non-empty lists only.
\<close>

definition percentile_linear :: "real \<Rightarrow> pyfloat list \<Rightarrow> py_error + pyfloat" where
  "percentile_linear q xs =
     (if xs = [] then Inl IndexError
      else if \<exists>x\<in>set xs. isnan x then Inr NaN
      else (let a = sort (defined_vals xs);
                n = length a;
                pos = q / 100 * real (n - 1);
                lo = nat \<lfloor>pos\<rfloor>;
                hi = min (lo + 1) (n - 1);
                g = pos - real lo
            in Inr (Fin (a ! lo + g * (a ! hi - a ! lo)))))"

text \<open>A feed with the given name, TTM growth, acceleration, solvency and high; low is 10.\<close>

definition mk_feed :: "string \<Rightarrow> real \<Rightarrow> real \<Rightarrow> pyfloat \<Rightarrow> real \<Rightarrow> instrument" where
  "mk_feed n t a s h =
     \<lparr>d_name = n, ttm = Fin t, acc = Fin a, npap = Fin 1.2, solv = s, roe = Fin 0.1,
      vol_sma = Fin 5000, mtm = Fin 0.05, rev_val = Fin 0.01, gro = Fin 0.1,
      recent_issuance = Fin 0, is_ST = Fin 0, high = Fin h, low = Fin 10, volume = Fin 3000\<rparr>"

text \<open>
  The specification's scenario: three instruments with TTM growth 0.30, 0.10, -0.05 and
  acceleration 1.5, -0.2, 0.8.
\<close>

definition scenario3 :: "instrument list" where
  "scenario3 =
     [mk_feed ''A'' 0.30 1.5 (Fin 0.5) 11,
      mk_feed ''B'' 0.10 (-0.2) (Fin 0.5) 11,
      mk_feed ''C'' (-0.05) 0.8 (Fin 0.5) 11]"

text \<open>
  Twelve feeds.  \<open>feed_A\<close> ranks first by TTM growth and by acceleration, has an undefined
  solvency (zero net assets) and is halted (high equals low); \<open>feed_B\<close> ranks second.
\<close>

definition feed_A :: instrument where
  "feed_A = mk_feed ''A'' 0.30 1.5 NaN 10"

definition feed_B :: instrument where
  "feed_B = mk_feed ''B'' 0.28 0.9 (Fin 0.5) 11"

definition universe12 :: "instrument list" where
  "universe12 =
     [mk_feed ''E'' 0.10 0.3 (Fin 0.5) 11, feed_B, mk_feed ''F'' 0.08 0.1 (Fin 0.5) 11,
      mk_feed ''C'' 0.26 0.4 (Fin 0.5) 11, mk_feed ''G'' 0.06 0.2 (Fin 0.5) 11, feed_A,
      mk_feed ''H'' 0.04 0.7 (Fin 0.5) 11, mk_feed ''D'' 0.24 0.2 (Fin 0.5) 11,
      mk_feed ''I'' 0.02 0.1 (Fin 0.5) 11, mk_feed ''J'' 0.01 0.1 (Fin 0.5) 11,
      mk_feed ''K'' (-0.01) 0.1 (Fin 0.5) 11, mk_feed ''L'' (-0.02) 0.1 (Fin 0.5) 11]"

definition params1 :: sel_params where
  "params1 = default_params\<lparr>selnum_final := 1\<rparr>"

definition feb1 :: date where
  "feb1 = \<lparr>year = 2020, month = 2, day = 1\<rparr>"

definition sel_state0 :: sel_state where
  "sel_state0 = \<lparr>last_rebalance = None, target_pct = Fin (19 / 20)\<rparr>"


section \<open>Properties of the MACD-KDJ-ATR strategy\<close>

subsection \<open>Order size\<close>




lemma helper_results:
  "enter_long st b = Inr st' \<Longrightarrow>
     \<exists>n. order_size (broker_value b) (atr b) = Inr n \<and>
         st' = st\<lparr>pending := Some (Buy n), last_buy_price := close_px b, buy_count := 1\<rparr>"
  "enter_short st b = Inr st' \<Longrightarrow>
     \<exists>n. order_size (broker_value b) (atr b) = Inr n \<and>
         st' = st\<lparr>pending := Some (Sell n), last_buy_price := close_px b, buy_count := 1\<rparr>"
  "buy_more st b = Inr st' \<Longrightarrow>
     \<exists>n. order_size (broker_value b) (atr b) = Inr n \<and>
         st' = st\<lparr>pending := Some (Buy n), last_buy_price := close_px b,
                  buy_count := buy_count st + 1\<rparr>"
  "sell_more st b = Inr st' \<Longrightarrow>
     \<exists>n. order_size (broker_value b) (atr b) = Inr n \<and>
         st' = st\<lparr>pending := Some (Sell n), last_buy_price := close_px b,
                  buy_count := buy_count st + 1\<rparr>"
  by (auto simp: enter_long_def enter_short_def buy_more_def sell_more_def split: sum.splits)



lemma entry_bar_step:
  "next_bar init_state entry_bar =
     Inr \<lparr>pending = Some (Buy 66), buy_count = 1, last_buy_price = Fin 100\<rparr>"
  by (simp add: next_bar_def init_state_def entry_bar_def long_entry_cond_def enter_long_def
      order_size_def py_max_def fgt_def)



subsection \<open>Pyramid count\<close>



lemma add_bar_step:
  "next_bar held_state add_bar =
     Inr \<lparr>pending = Some (Buy 66), buy_count = 2, last_buy_price = Fin 110\<rparr>"
  by (simp add: next_bar_def held_state_def add_bar_def long_pyramid_cond_def buy_more_def
      order_size_def py_max_def fgt_def)



subsection \<open>Branch priority\<close>

lemma add_bar_both:
  "long_pyramid_cond held_state add_bar \<and> long_profit_cond held_state add_bar"
  by (simp add: long_pyramid_cond_def long_profit_cond_def held_state_def add_bar_def fgt_def)

text \<open>
  C10.  With a position open and no order pending, \<open>next\<close> takes the first branch whose
  condition holds and no other.  Long: pyramiding, then stop-loss, then take-profit; when
  the pyramiding condition holds the position is added to (count raised by 1) and not
  closed, whether or not the take-profit condition holds as well.  Short: pyramiding, then
  stop-loss, then the signal exit.  When no condition holds the state is unchanged.
\<close>

theorem branch_priority:
  assumes "pending st = None"
  shows "(0 < position_size b \<longrightarrow>
            (long_pyramid_cond st b \<longrightarrow>
               next_bar st b = buy_more st b
               \<and> (\<forall>st'. next_bar st b = Inr st' \<longrightarrow>
                     (\<exists>n. pending st' = Some (Buy n)) \<and> buy_count st' = buy_count st + 1))
          \<and> (\<not> long_pyramid_cond st b \<and> long_stop_cond st b \<longrightarrow>
               next_bar st b = Inr (st\<lparr>pending := Some CloseAll, buy_count := 0\<rparr>))
          \<and> (\<not> long_pyramid_cond st b \<and> \<not> long_stop_cond st b \<and> long_profit_cond st b \<longrightarrow>
               next_bar st b = Inr (st\<lparr>pending := Some CloseAll, buy_count := 0\<rparr>))
          \<and> (\<not> long_pyramid_cond st b \<and> \<not> long_stop_cond st b \<and> \<not> long_profit_cond st b \<longrightarrow>
               next_bar st b = Inr st))
       \<and> (position_size b < 0 \<longrightarrow>
            (short_pyramid_cond st b \<longrightarrow>
               next_bar st b = sell_more st b
               \<and> (\<forall>st'. next_bar st b = Inr st' \<longrightarrow>
                     (\<exists>n. pending st' = Some (Sell n)) \<and> buy_count st' = buy_count st + 1))
          \<and> (\<not> short_pyramid_cond st b \<and> short_stop_cond st b \<longrightarrow>
               next_bar st b = Inr (st\<lparr>pending := Some CloseAll, buy_count := 0\<rparr>))
          \<and> (\<not> short_pyramid_cond st b \<and> \<not> short_stop_cond st b \<and> short_exit_cond b \<longrightarrow>
               next_bar st b = Inr (st\<lparr>pending := Some CloseAll, buy_count := 0\<rparr>))
          \<and> (\<not> short_pyramid_cond st b \<and> \<not> short_stop_cond st b \<and> \<not> short_exit_cond b \<longrightarrow>
               next_bar st b = Inr st))"
  using assms
  by (auto simp: next_bar_def exit_all_def dest!: helper_results)

theorem branch_priority_witness:
  "pending held_state = None \<and> 0 < position_size add_bar
   \<and> long_pyramid_cond held_state add_bar \<and> long_profit_cond held_state add_bar
   \<and> next_bar held_state add_bar = buy_more held_state add_bar
   \<and> next_bar held_state add_bar =
        Inr \<lparr>pending = Some (Buy 66), buy_count = 2, last_buy_price = Fin 110\<rparr>"
  using branch_priority[of held_state add_bar] add_bar_both add_bar_step
  by (simp add: held_state_def add_bar_def)

subsection \<open>Long entry\<close>

text \<open>
  C2 as stated fails: on \<open>entry_bar\<close> the strategy, flat and with no order pending,
  enters long although the current J (30) is below the current K and D (40).
\<close>

theorem long_entry_counterexample:
  "pending init_state = None \<and> position_size entry_bar = 0
   \<and> next_bar init_state entry_bar =
        Inr \<lparr>pending = Some (Buy 66), buy_count = 1, last_buy_price = Fin 100\<rparr>
   \<and> \<not> fgt (kdj_j entry_bar) (kdj_k entry_bar)
   \<and> \<not> spec_long_entry entry_bar"
  using entry_bar_step
  by (simp add: init_state_def entry_bar_def spec_long_entry_def fgt_def)

text \<open>
  C2, amended.  Flat and with no order pending, \<open>next\<close> issues a long entry if and only if
  the histogram is below 0, the prior J is below the prior K and the prior D, the current
  J is above the prior K and the prior D, RSI is below 70, and the order size can be
  computed.
\<close>

theorem long_entry_iff:
  assumes "pending st = None" and "position_size b = 0"
  shows "(\<exists>st' n. next_bar st b = Inr st' \<and> pending st' = Some (Buy n))
         \<longleftrightarrow> flt (hist_val b) (Fin 0)
             \<and> flt (kdj_j_pre b) (kdj_k_pre b) \<and> flt (kdj_k_pre b) (kdj_j b)
             \<and> flt (kdj_j_pre b) (kdj_d_pre b) \<and> flt (kdj_d_pre b) (kdj_j b)
             \<and> flt (rsi b) (Fin 70)
             \<and> (\<exists>n. order_size (broker_value b) (atr b) = Inr n)"
  using assms
  by (auto simp: next_bar_def long_entry_cond_def enter_long_def enter_short_def
      split: sum.splits)

theorem long_entry_iff_witness:
  "pending init_state = None \<and> position_size entry_bar = 0
   \<and> (\<exists>st' n. next_bar init_state entry_bar = Inr st' \<and> pending st' = Some (Buy n))
   \<and> flt (kdj_j_pre entry_bar) (kdj_k_pre entry_bar) \<and> flt (kdj_k_pre entry_bar) (kdj_j entry_bar)"
  using long_entry_iff[of init_state entry_bar]
  by (simp add: init_state_def entry_bar_def order_size_def py_max_def fgt_def)


section \<open>Properties of the gated momentum indicator\<close>










section \<open>Properties of the selection strategy\<close>

subsection \<open>Ranking\<close>

lemma mset_insort_desc: "mset (insort_desc f x ys) = add_mset x (mset ys)"
  by (induction ys) auto

lemma mset_sorted_desc: "mset (sorted_desc f xs) = mset xs"
  by (induction xs) (auto simp: sorted_desc_def mset_insort_desc)

lemma set_sorted_desc: "set (sorted_desc f xs) = set xs"
  by (metis mset_sorted_desc set_mset_mset)

lemma length_sorted_desc: "length (sorted_desc f xs) = length xs"
  by (metis mset_sorted_desc size_mset)

lemma sorted_insort_desc:
  assumes "sorted_wrt (\<lambda>a b. fle (f b) (f a)) ys" "\<forall>y\<in>set ys. f y \<noteq> NaN" "f x \<noteq> NaN"
  shows "sorted_wrt (\<lambda>a b. fle (f b) (f a)) (insort_desc f x ys)"
  using assms
proof (induction ys)
  case Nil
  show ?case by simp
next
  case (Cons y ys)
  obtain a where a: "f x = Fin a" using Cons.prems(3) by (cases "f x") auto
  obtain b where b: "f y = Fin b" using Cons.prems(2) by (cases "f y") auto
  show ?case
  proof (cases "flt (f x) (f y)")
    case True
    have "set (insort_desc f x ys) = insert x (set ys)"
      by (metis mset_insort_desc set_mset_add_mset_insert set_mset_mset)
    with True Cons a b show ?thesis by auto
  next
    case False
    have "fle (f z) (f x)" if z: "z \<in> set ys" for z
    proof -
      from z Cons.prems(1) have "fle (f z) (f y)" by simp
      moreover obtain c where "f z = Fin c" using z Cons.prems(2) by (cases "f z") auto
      ultimately show ?thesis using False a b by simp
    qed
    with False Cons.prems(1) a b show ?thesis by auto
  qed
qed

lemma sorted_sorted_desc:
  assumes "\<forall>x\<in>set xs. f x \<noteq> NaN"
  shows "sorted_wrt (\<lambda>a b. fle (f b) (f a)) (sorted_desc f xs)"
  using assms
proof (induction xs)
  case Nil
  show ?case by (simp add: sorted_desc_def)
next
  case (Cons x xs)
  then have "sorted_wrt (\<lambda>a b. fle (f b) (f a)) (sorted_desc f xs)" by simp
  from sorted_insort_desc[OF this, of x] Cons.prems
  show ?case by (simp add: sorted_desc_def set_sorted_desc[unfolded sorted_desc_def])
qed

lemma acc_vals_sorted: "sorted_wrt (\<lambda>a b. fle (acc b) (acc a)) (acc_vals universe)"
  unfolding acc_vals_def
  by (rule sorted_sorted_desc) (auto simp: fgt_def)

lemma distinct_map_sorted_desc:
  "distinct (map g xs) \<Longrightarrow> distinct (map g (sorted_desc f xs))"
proof -
  have "mset (map g (sorted_desc f xs)) = mset (map g xs)"
    by (simp add: mset_sorted_desc)
  then show "distinct (map g xs) \<Longrightarrow> distinct (map g (sorted_desc f xs))"
    by (metis mset_eq_imp_distinct_iff)
qed

lemma distinct_map_take: "distinct (map g xs) \<Longrightarrow> distinct (map g (take k xs))"
  by (metis distinct_take take_map)

subsection \<open>Sample universe\<close>

lemma mk_feed_sel:
  "d_name (mk_feed n t a s h) = n" "ttm (mk_feed n t a s h) = Fin t"
  "acc (mk_feed n t a s h) = Fin a" "npap (mk_feed n t a s h) = Fin (6 / 5)"
  "solv (mk_feed n t a s h) = s" "roe (mk_feed n t a s h) = Fin (1 / 10)"
  "vol_sma (mk_feed n t a s h) = Fin 5000" "mtm (mk_feed n t a s h) = Fin (1 / 20)"
  "rev_val (mk_feed n t a s h) = Fin (1 / 100)" "gro (mk_feed n t a s h) = Fin (1 / 10)"
  "recent_issuance (mk_feed n t a s h) = Fin 0" "is_ST (mk_feed n t a s h) = Fin 0"
  "high (mk_feed n t a s h) = Fin h" "low (mk_feed n t a s h) = Fin 10"
  "volume (mk_feed n t a s h) = Fin 3000"
  by (simp_all add: mk_feed_def)

lemma top_third12:
  "top_third universe12 =
     [feed_A, feed_B, mk_feed ''C'' 0.26 0.4 (Fin 0.5) 11, mk_feed ''D'' 0.24 0.2 (Fin 0.5) 11]"
  by (simp add: top_third_def sorted_desc_def universe12_def feed_A_def feed_B_def mk_feed_sel)

lemma base_pool12: "base_pool universe12 = [feed_A, feed_B]"
  by (simp add: base_pool_def acc_vals_def top_third12 sorted_desc_def fgt_def feed_A_def
      feed_B_def mk_feed_sel)

lemma threshold12: "percentile_linear 90 [Fin 5000, Fin 5000] = Inr (Fin 5000)"
  by (simp add: percentile_linear_def defined_vals_def Let_def)

lemma eligible12:
  "eligible_set (percentile_linear 90) params1 universe12 = Inr [feed_A, feed_B]"
  unfolding eligible_set_def base_pool12 Let_def
  by (simp add: params1_def default_params_def passes_filters_def feed_A_def feed_B_def
      mk_feed_sel threshold12)

lemma norm_const: "norm_arr [Fin a, Fin a] = Inr [Fin 50, Fin 50]"
  by (simp add: norm_arr_def norm_entry_def fgt_def)

lemma norm_desc: "b < a \<Longrightarrow> norm_arr [Fin a, Fin b] = Inr [Fin 100, Fin 0]"
  by (simp add: norm_arr_def norm_entry_def fgt_def)

lemma norm_solv12: "norm_arr [NaN, Fin (1 / 2)] = Inr [Fin 50, Fin 50]"
  by (simp add: norm_arr_def norm_entry_def fgt_def)

lemma norm_all12:
  "norm_all [feed_A, feed_B] =
     Inr ([Fin 100, Fin 0] # [Fin 100, Fin 0] # [Fin 50, Fin 50] # [Fin 50, Fin 50]
          # [Fin 50, Fin 50] # [Fin 50, Fin 50] # [Fin 50, Fin 50] # [Fin 50, Fin 50]
          # [Fin 50, Fin 50] # [])"
  by (simp add: norm_all_def factors_def feed_A_def feed_B_def mk_feed_sel norm_const norm_desc
      norm_solv12)

lemma composite12:
  "composite params1 [feed_A, feed_B] = Inr [(feed_A, Fin (641 / 2)), (feed_B, Fin (481 / 2))]"
  by (simp add: composite_def norm_all12 score_def params1_def default_params_def upt_rec)

lemma final_loop_eq:
  "final_loop n ranked fin i
     = fin @ take (n - length fin) (filter (\<lambda>d. \<not> halted d) (map fst (drop i ranked)))"
proof (induction n ranked fin i rule: final_loop.induct)
  case (1 n ranked fin i)
  show ?case
  proof (cases "length fin < n \<and> i < length ranked")
    case True
    then have d: "drop i ranked = ranked ! i # drop (Suc i) ranked"
      by (simp add: Cons_nth_drop_Suc)
    from True obtain k where k: "n - length fin = Suc k" by (cases "n - length fin") auto
    then have k': "n - Suc (length fin) = k" by simp
    show ?thesis
      using "1.IH"[OF True] True d k k'
      by (subst final_loop.simps) auto
  next
    case False
    then show ?thesis by (subst final_loop.simps) auto
  qed
qed

lemma rebalance12:
  "rebalance (percentile_linear 90) params1 (Fin (19 / 20)) universe12 =
     Inr ([feed_B],
          map (\<lambda>d. (d_name d, if d_name d = ''B'' then Fin (19 / 20) else Fin 0)) universe12)"
proof -
  have srt: "sorted_desc snd [(feed_A, Fin (641 / 2)), (feed_B, Fin (481 / 2))]
          = [(feed_A, Fin (641 / 2)), (feed_B, Fin (481 / 2))]"
    by (simp add: sorted_desc_def)
  have h: "halted feed_A" "\<not> halted feed_B"
    by (simp_all add: halted_def feed_A_def feed_B_def mk_feed_sel)
  have n: "selnum_final params1 = 1" by (simp add: params1_def)
  have nm: "d_name feed_B = ''B''" by (simp add: feed_B_def mk_feed_sel)
  show ?thesis
    unfolding rebalance_def eligible12
    by (simp add: composite12 final_loop_eq target_orders_def srt h n nm Let_def)
qed

lemma distinct12: "distinct (map d_name universe12)"
  by (simp add: universe12_def feed_A_def feed_B_def mk_feed_sel)

subsection \<open>Base pool\<close>

text \<open>
  C1 as stated fails on its own scenario: the top third of the three instruments is the
  single instrument A, which has positive acceleration, and the top half of that one
  instrument, truncating, is nothing.  The base pool is empty.
\<close>

theorem base_pool_counterexample:
  "map d_name (top_third scenario3) = [''A'']
   \<and> map d_name (acc_vals scenario3) = [''A'']
   \<and> base_pool scenario3 = []"
  by (simp add: base_pool_def acc_vals_def top_third_def sorted_desc_def scenario3_def
      mk_feed_sel fgt_def)

text \<open>
  C1, amended.  The base pool is built in two stages.  The universe is ranked by TTM
  growth (a rearrangement of the universe, descending when no TTM value is NaN) and the
  first \<open>length universe div 3\<close> are kept.  Of these, the instruments with acceleration
  above 0 are ranked by acceleration, descending, and the first half, truncating, is the
  base pool.  For the scenario of three instruments the base pool is empty.
\<close>

theorem base_pool_staging:
  "mset (sorted_desc ttm universe) = mset universe
   \<and> ((\<forall>d\<in>set universe. ttm d \<noteq> NaN) \<longrightarrow>
        sorted_wrt (\<lambda>a b. fle (ttm b) (ttm a)) (sorted_desc ttm universe))
   \<and> top_third universe = take (length universe div 3) (sorted_desc ttm universe)
   \<and> mset (acc_vals universe) = mset (filter (\<lambda>d. fgt (acc d) (Fin 0)) (top_third universe))
   \<and> sorted_wrt (\<lambda>a b. fle (acc b) (acc a)) (acc_vals universe)
   \<and> base_pool universe = take (length (acc_vals universe) div 2) (acc_vals universe)
   \<and> length (base_pool universe)
        = length (filter (\<lambda>d. fgt (acc d) (Fin 0)) (top_third universe)) div 2
   \<and> base_pool scenario3 = []"
proof -
  have "length (acc_vals universe) = length (filter (\<lambda>d. fgt (acc d) (Fin 0)) (top_third universe))"
    by (simp add: acc_vals_def length_sorted_desc)
  then have "length (base_pool universe)
        = length (filter (\<lambda>d. fgt (acc d) (Fin 0)) (top_third universe)) div 2"
    by (simp add: base_pool_def)
  moreover have "base_pool scenario3 = []"
    by (simp add: base_pool_def acc_vals_def top_third_def sorted_desc_def scenario3_def
      mk_feed_sel fgt_def)
  ultimately show ?thesis
    using acc_vals_sorted[of universe] sorted_sorted_desc[of universe ttm]
    by (simp add: mset_sorted_desc top_third_def base_pool_def acc_vals_def)
qed

theorem base_pool_staging_witness:
  "NaN \<notin> set (map ttm universe12)
   \<and> sorted_wrt (\<lambda>a b. fle (ttm b) (ttm a)) (sorted_desc ttm universe12)
   \<and> length (top_third universe12) = 4
   \<and> base_pool universe12 = [feed_A, feed_B]"
  using base_pool_staging[of universe12] base_pool12 top_third12
  by (simp add: universe12_def feed_A_def feed_B_def mk_feed_sel)

subsection \<open>Normalization\<close>

lemma filter_defined: "filter (\<lambda>x. \<not> isnan x) arr = map Fin (defined_vals arr)"
  by (induction arr) (auto simp: defined_vals_def split: pyfloat.splits)

lemma defined_vals_mem: "x \<in> set (defined_vals arr) \<longleftrightarrow> Fin x \<in> set arr"
  by (induction arr) (auto simp: defined_vals_def split: pyfloat.splits)

lemma foldl_min_Fin:
  "foldl (\<lambda>m y. if flt y m then y else m) (Fin a) (map Fin rs) = Fin (Min (insert a (set rs)))"
proof (induction rs arbitrary: a)
  case Nil
  show ?case by simp
next
  case (Cons r rs)
  have "Min (insert (min a r) (set rs)) = Min (insert a (insert r (set rs)))"
    by (cases "set rs = {}") (simp_all add: min.assoc)
  then show ?case using Cons[of "min a r"] by (auto simp: min_def)
qed

lemma foldl_max_Fin:
  "foldl (\<lambda>m y. if fgt y m then y else m) (Fin a) (map Fin rs) = Fin (Max (insert a (set rs)))"
proof (induction rs arbitrary: a)
  case Nil
  show ?case by simp
next
  case (Cons r rs)
  have "Max (insert (max a r) (set rs)) = Max (insert a (insert r (set rs)))"
    by (cases "set rs = {}") (simp_all add: max.assoc)
  then show ?case using Cons[of "max a r"] by (auto simp: max_def fgt_def)
qed

lemma py_min_of_Fin: "rs \<noteq> [] \<Longrightarrow> py_min_of (map Fin rs) = Inr (Fin (Min (set rs)))"
  by (cases rs) (simp_all add: foldl_min_Fin)

lemma py_max_of_Fin: "rs \<noteq> [] \<Longrightarrow> py_max_of (map Fin rs) = Inr (Fin (Max (set rs)))"
  by (cases rs) (simp_all add: foldl_max_Fin)

lemma collect_map_Inr: "(\<forall>x\<in>set xs. f x = Inr (g x)) \<Longrightarrow> collect (map f xs) = Inr (map g xs)"
  by (induction xs) auto

lemma norm_entry_scaled: "norm_entry (Fin mn) (Fin mx) v = Inr (scaled mn mx v)"
  by (cases v) (auto simp: norm_entry_def scaled_def)

lemma norm_exact:
  assumes "defined_vals arr \<noteq> []"
  shows "norm_arr arr =
     Inr (map (scaled (Min (set (defined_vals arr))) (Max (set (defined_vals arr)))) arr)"
  using assms
  by (simp add: norm_arr_def filter_defined py_min_of_Fin py_max_of_Fin collect_map_Inr
      norm_entry_scaled)

lemma scaled_range:
  assumes "mn \<le> x" "x \<le> mx"
  shows "\<exists>y. scaled mn mx (Fin x) = Fin y \<and> 0 \<le> y \<and> y \<le> 100"
proof (cases "mn = mx")
  case True
  then show ?thesis by (simp add: scaled_def)
next
  case False
  with assms have pos: "0 < mx - mn" by simp
  have "0 \<le> (x - mn) / (mx - mn)" using assms pos by simp
  moreover have "(x - mn) / (mx - mn) \<le> 1" using assms pos by simp
  ultimately have "0 \<le> (x - mn) / (mx - mn) * 100 \<and> (x - mn) / (mx - mn) * 100 \<le> 100"
    by (metis mult.commute mult_left_le mult_nonneg_nonneg zero_le_numeral)
  moreover have "scaled mn mx (Fin x) = Fin ((x - mn) / (mx - mn) * 100)"
    using False by (simp add: scaled_def)
  ultimately show ?thesis by blast
qed

text \<open>
  C4.  On a factor list with at least one defined value, normalization returns one value
  per instrument.  Every defined value \<open>x\<close> is min-max scaled, to
  \<open>(x - min) / (max - min) * 100\<close> over the defined values, which lies in \<open>[0, 100]\<close>; and
  when the minimum equals the maximum every instrument receives exactly 50 and nothing
  is divided.
\<close>

theorem norm_min_max:
  assumes "defined_vals arr \<noteq> []"
  shows "\<exists>ys. norm_arr arr = Inr ys \<and> length ys = length arr
           \<and> (\<forall>i<length arr. \<forall>x. arr ! i = Fin x \<longrightarrow>
                 ys ! i = scaled (Min (set (defined_vals arr))) (Max (set (defined_vals arr))) (Fin x)
                 \<and> (\<exists>y. ys ! i = Fin y \<and> 0 \<le> y \<and> y \<le> 100))
           \<and> (Min (set (defined_vals arr)) = Max (set (defined_vals arr)) \<longrightarrow>
                 ys = replicate (length arr) (Fin 50))"
proof -
  let ?mn = "Min (set (defined_vals arr))" and ?mx = "Max (set (defined_vals arr))"
  let ?ys = "map (scaled ?mn ?mx) arr"
  have n: "norm_arr arr = Inr ?ys" by (rule norm_exact[OF assms])
  have rng: "ys_i = scaled ?mn ?mx (Fin x) \<and> (\<exists>y. ys_i = Fin y \<and> 0 \<le> y \<and> y \<le> 100)"
    if "i < length arr" "arr ! i = Fin x" "ys_i = ?ys ! i" for i x ys_i
  proof -
    from that(1,2) have "Fin x \<in> set arr" by (metis nth_mem)
    then have "x \<in> set (defined_vals arr)" by (simp add: defined_vals_mem)
    then have "?mn \<le> x" "x \<le> ?mx" by simp_all
    from scaled_range[OF this] that show ?thesis by simp
  qed
  have deg: "?ys = replicate (length arr) (Fin 50)" if "?mn = ?mx"
  proof -
    have "scaled ?mn ?mx = (\<lambda>v. Fin 50)" using that by (auto simp: scaled_def)
    then show ?thesis by (simp add: map_replicate_const)
  qed
  from n rng deg show ?thesis by auto
qed

theorem norm_min_max_witness:
  "defined_vals [Fin 1, Fin 3, Fin 2] \<noteq> []
   \<and> norm_arr [Fin 1, Fin 3, Fin 2] = Inr [Fin 0, Fin 100, Fin 50]
   \<and> defined_vals [Fin 2, NaN, Fin 2] \<noteq> []
   \<and> norm_arr [Fin 2, NaN, Fin 2] = Inr [Fin 50, Fin 50, Fin 50]"
  using norm_min_max[of "[Fin 1, Fin 3, Fin 2]"] norm_min_max[of "[Fin 2, NaN, Fin 2]"]
  by (simp add: defined_vals_def scaled_def norm_arr_def norm_entry_def fgt_def)

subsection \<open>Undefined factor values\<close>

lemma filters_ignore_nan:
  assumes "passes_filters th d"
  shows "passes_filters th (d\<lparr>npap := NaN\<rparr>)" "passes_filters th (d\<lparr>solv := NaN\<rparr>)"
    "passes_filters th (d\<lparr>roe := NaN\<rparr>)" "passes_filters th (d\<lparr>vol_sma := NaN\<rparr>)"
    "passes_filters th (d\<lparr>mtm := NaN, rev_val := NaN, gro := NaN\<rparr>)"
  using assms by (simp_all add: passes_filters_def)

text \<open>
  C3 as stated fails: \<open>feed_A\<close>, whose solvency is NaN, passes the hard filters and is in
  the eligible set, and normalization gives its solvency the real number 50.
\<close>

theorem nan_factor_counterexample:
  "eligible_set (percentile_linear 90) params1 universe12 = Inr [feed_A, feed_B]
   \<and> solv feed_A = NaN
   \<and> norm_arr (map solv [feed_A, feed_B]) = Inr [Fin 50, Fin 50]"
  using eligible12
  by (simp add: feed_A_def feed_B_def mk_feed_sel norm_solv12)

text \<open>
  C3, amended.  NaN factor values are left out of the minimum and maximum that
  normalization computes, so the defined values are scaled exactly as if the NaN entries
  were absent, and no NaN is coerced to zero.  An instrument with a NaN factor is not
  removed: normalization returns one value per instrument, for a NaN entry NaN when the
  defined values differ and 50 when they are all equal; and an instrument that passes the
  hard filters still passes them when its NPAP, solvency, ROE, average traded value,
  momentum or analyst factors are NaN.
\<close>

theorem norm_nan_entries:
  assumes "defined_vals arr \<noteq> []"
  shows "\<exists>ys. norm_arr arr = Inr ys \<and> length ys = length arr
           \<and> (\<forall>i<length arr. arr ! i = NaN \<longrightarrow>
                 ys ! i = (if Min (set (defined_vals arr)) = Max (set (defined_vals arr))
                           then Fin 50 else NaN))
           \<and> norm_arr (filter (\<lambda>x. \<not> isnan x) arr)
               = Inr (map snd (filter (\<lambda>(x, y). \<not> isnan x) (zip arr ys)))
           \<and> (passes_filters th d \<longrightarrow>
                 passes_filters th (d\<lparr>npap := NaN\<rparr>) \<and> passes_filters th (d\<lparr>solv := NaN\<rparr>)
                 \<and> passes_filters th (d\<lparr>roe := NaN\<rparr>) \<and> passes_filters th (d\<lparr>vol_sma := NaN\<rparr>)
                 \<and> passes_filters th (d\<lparr>mtm := NaN, rev_val := NaN, gro := NaN\<rparr>))"
proof -
  let ?mn = "Min (set (defined_vals arr))" and ?mx = "Max (set (defined_vals arr))"
  let ?ys = "map (scaled ?mn ?mx) arr"
  have n: "norm_arr arr = Inr ?ys" by (rule norm_exact[OF assms])
  have dd: "defined_vals (map Fin rs) = rs" for rs
    by (induction rs) (simp_all add: defined_vals_def)
  have "norm_arr (map Fin (defined_vals arr))
          = Inr (map (scaled ?mn ?mx) (map Fin (defined_vals arr)))"
    using norm_exact[of "map Fin (defined_vals arr)"] assms by (simp add: dd)
  moreover have "map snd (filter (\<lambda>(x, y). \<not> isnan x) (zip xs (map f xs)))
      = map f (filter (\<lambda>x. \<not> isnan x) xs)" for f :: "pyfloat \<Rightarrow> pyfloat" and xs
    by (induction xs) auto
  ultimately have flt: "norm_arr (filter (\<lambda>x. \<not> isnan x) arr)
               = Inr (map snd (filter (\<lambda>(x, y). \<not> isnan x) (zip arr ?ys)))"
    by (simp add: filter_defined)
  have nan: "\<forall>i<length arr. arr ! i = NaN \<longrightarrow> ?ys ! i = (if ?mn = ?mx then Fin 50 else NaN)"
    by (simp add: scaled_def)
  have len: "length ?ys = length arr" by simp
  from n len nan flt filters_ignore_nan[of th d] show ?thesis by blast
qed

theorem norm_nan_entries_witness:
  "defined_vals [NaN, Fin 1, Fin 3, Fin 2] \<noteq> []
   \<and> norm_arr [NaN, Fin 1, Fin 3, Fin 2] = Inr [NaN, Fin 0, Fin 100, Fin 50]
   \<and> norm_arr (filter (\<lambda>x. \<not> isnan x) [NaN, Fin 1, Fin 3, Fin 2]) = Inr [Fin 0, Fin 100, Fin 50]
   \<and> passes_filters (Fin 5000) feed_B
   \<and> passes_filters (Fin 5000) (feed_B\<lparr>solv := NaN\<rparr>)"
  using norm_nan_entries[of "[NaN, Fin 1, Fin 3, Fin 2]" "Fin 5000" feed_B]
  by (simp add: defined_vals_def norm_arr_def norm_entry_def fgt_def passes_filters_def
      feed_B_def mk_feed_sel)

subsection \<open>Final selection\<close>

lemma distinct_base_pool:
  assumes "distinct (map d_name universe)"
  shows "distinct (map d_name (base_pool universe))"
proof -
  have "distinct (map d_name (top_third universe))"
    using assms by (simp add: top_third_def distinct_map_take distinct_map_sorted_desc)
  then have "distinct (map d_name (acc_vals universe))"
    by (simp add: acc_vals_def distinct_map_sorted_desc distinct_map_filter)
  then show ?thesis by (simp add: base_pool_def distinct_map_take)
qed

lemma distinct_eligible:
  assumes "distinct (map d_name universe)" "eligible_set pct p universe = Inr eligible"
  shows "distinct (map d_name eligible)"
  using assms distinct_base_pool[OF assms(1)]
  by (auto simp: eligible_set_def Let_def distinct_map_filter split: sum.splits if_splits)

lemma composite_fst: "composite p eligible = Inr scored \<Longrightarrow> map fst scored = eligible"
  by (auto simp: composite_def comp_def map_nth split: sum.splits)

lemma rebalance_Inr:
  assumes "rebalance pct p tgt universe = Inr (final, orders)"
  shows "\<exists>eligible scored.
           eligible_set pct p universe = Inr eligible
           \<and> composite p eligible = Inr scored
           \<and> final = final_loop (selnum_final p) (sorted_desc snd scored) [] 0
           \<and> orders = target_orders tgt universe final"
proof (cases "eligible_set pct p universe")
  case (Inl e)
  with assms show ?thesis by (simp add: rebalance_def)
next
  case (Inr eligible)
  note el = this
  show ?thesis
  proof (cases "composite p eligible")
    case (Inl e)
    with assms el show ?thesis by (simp add: rebalance_def)
  next
    case (Inr scored)
    with assms el show ?thesis by (auto simp: rebalance_def Let_def)
  qed
qed

text \<open>
  C5.  The selection loop returns the first \<open>selnum_final\<close> instruments of the ranked list
  that are not halted (high equal to low, or zero volume), in ranking order, or all of
  them when there are fewer.  So whenever \<open>rebalance\<close> returns, on feeds with distinct
  names, the selected instruments number at most \<open>selnum_final\<close>, have distinct names,
  none is halted, and they are taken in order from the composite scores sorted
  descending.
\<close>

theorem final_selection:
  "final_loop n ranked [] 0 = take n (filter (\<lambda>d. \<not> halted d) (map fst ranked))
   \<and> (rebalance pct p tgt universe = Inr (final, orders) \<and> distinct (map d_name universe) \<longrightarrow>
        length final \<le> selnum_final p
        \<and> distinct (map d_name final)
        \<and> (\<forall>d\<in>set final. \<not> halted d)
        \<and> (\<exists>eligible scored.
              eligible_set pct p universe = Inr eligible
              \<and> composite p eligible = Inr scored
              \<and> map fst scored = eligible
              \<and> mset (sorted_desc snd scored) = mset scored
              \<and> ((\<forall>s\<in>set scored. snd s \<noteq> NaN) \<longrightarrow>
                    sorted_wrt (\<lambda>a b. fle (snd b) (snd a)) (sorted_desc snd scored))
              \<and> final = take (selnum_final p)
                          (filter (\<lambda>d. \<not> halted d) (map fst (sorted_desc snd scored)))))"
proof (intro conjI impI)
  show "final_loop n ranked [] 0 = take n (filter (\<lambda>d. \<not> halted d) (map fst ranked))"
    by (simp add: final_loop_eq)
next
  assume a: "rebalance pct p tgt universe = Inr (final, orders) \<and> distinct (map d_name universe)"
  from rebalance_Inr[of pct p tgt universe final orders] a
  obtain eligible scored where
    el: "eligible_set pct p universe = Inr eligible" and
    sc: "composite p eligible = Inr scored" and
    fin: "final = final_loop (selnum_final p) (sorted_desc snd scored) [] 0"
    by blast
  let ?ranked = "sorted_desc snd scored"
  have fin': "final = take (selnum_final p) (filter (\<lambda>d. \<not> halted d) (map fst ?ranked))"
    using fin by (simp add: final_loop_eq)
  have fst: "map fst scored = eligible" by (rule composite_fst[OF sc])
  have "distinct (map d_name eligible)" using a el by (blast intro: distinct_eligible)
  then have "distinct (map (d_name \<circ> fst) scored)" using fst by (metis map_map)
  then have "distinct (map (d_name \<circ> fst) ?ranked)" by (rule distinct_map_sorted_desc)
  then have "distinct (map d_name (map fst ?ranked))" by simp
  then show "distinct (map d_name final)"
    unfolding fin' by (intro distinct_map_take distinct_map_filter)
  show "length final \<le> selnum_final p" unfolding fin' by simp
  show "\<forall>d\<in>set final. \<not> halted d"
    unfolding fin' by (auto dest: in_set_takeD)
  have srt: "(\<forall>s\<in>set scored. snd s \<noteq> NaN) \<longrightarrow>
                    sorted_wrt (\<lambda>a b. fle (snd b) (snd a)) ?ranked"
    using sorted_sorted_desc[of scored snd] by blast
  have ms: "mset ?ranked = mset scored" by (rule mset_sorted_desc)
  show "\<exists>eligible scored.
              eligible_set pct p universe = Inr eligible
              \<and> composite p eligible = Inr scored
              \<and> map fst scored = eligible
              \<and> mset (sorted_desc snd scored) = mset scored
              \<and> ((\<forall>s\<in>set scored. snd s \<noteq> NaN) \<longrightarrow>
                    sorted_wrt (\<lambda>a b. fle (snd b) (snd a)) (sorted_desc snd scored))
              \<and> final = take (selnum_final p)
                          (filter (\<lambda>d. \<not> halted d) (map fst (sorted_desc snd scored)))"
    using el sc fst ms srt fin' by blast
qed

theorem final_selection_witness:
  "rebalance (percentile_linear 90) params1 (Fin (19 / 20)) universe12 =
     Inr ([feed_B],
          map (\<lambda>d. (d_name d, if d_name d = ''B'' then Fin (19 / 20) else Fin 0)) universe12)
   \<and> distinct (map d_name universe12)
   \<and> length [feed_B] \<le> selnum_final params1
   \<and> distinct (map d_name [feed_B])
   \<and> \<not> halted feed_B
   \<and> NaN \<notin> set (map snd [(feed_A, Fin (641 / 2)), (feed_B, Fin (481 / 2))])
   \<and> halted feed_A"
  using final_selection[of 1 "[]" "percentile_linear 90" params1 "Fin (19 / 20)" universe12
      "[feed_B]" "map (\<lambda>d. (d_name d, if d_name d = ''B'' then Fin (19 / 20) else Fin 0)) universe12"]
    rebalance12 distinct12
  by (simp add: halted_def feed_A_def mk_feed_sel)

subsection \<open>Rebalance scheduler\<close>

lemma init_sel1: "init_sel params1 = Inr sel_state0"
  by (simp add: init_sel_def params1_def default_params_def sel_state0_def)

lemma first_call12:
  "next_sel (percentile_linear 90) params1 sel_state0 feb1 universe12 =
     Inr (sel_state0\<lparr>last_rebalance := Some feb1\<rparr>,
          map (\<lambda>d. (d_name d, if d_name d = ''B'' then Fin (19 / 20) else Fin 0)) universe12)"
proof -
  have "universe12 \<noteq> []" by (simp add: universe12_def)
  moreover have "minus_one_day feb1 = Inr \<lparr>year = 2020, month = 1, day = 31\<rparr>"
    by (simp add: minus_one_day_def feb1_def days_in_month_def)
  moreover have "target_pct sel_state0 = Fin (19 / 20)" "last_rebalance sel_state0 = None"
    by (simp_all add: sel_state0_def)
  ultimately show ?thesis
    by (simp add: next_sel_def rebalance12 target_def)
qed

text \<open>
  C8.  After a call of \<open>next\<close> on date \<open>dt\<close> has returned, a further call on the same date
  issues no order and leaves the strategy state as the first call left it; and a call that
  rebalanced (it issued orders) has recorded \<open>dt\<close> as the last rebalance date.
\<close>

theorem scheduler_idempotent:
  assumes "next_sel pct p st dt universe = Inr (st', orders)" and "universe' \<noteq> []"
  shows "next_sel pct p st' dt universe' = Inr (st', [])
         \<and> (orders \<noteq> [] \<longrightarrow> last_rebalance st' = Some dt)"
proof (cases "last_rebalance st = Some dt")
  case True
  with assms show ?thesis by (auto simp: next_sel_def split: if_splits)
next
  case False
  note nl = this
  from assms(1) have ne: "universe \<noteq> []" by (auto simp: next_sel_def split: if_splits)
  from assms(1) ne nl obtain prior where prior: "minus_one_day dt = Inr prior"
    by (cases "minus_one_day dt") (auto simp: next_sel_def)
  show ?thesis
  proof (cases "(month prior, day prior) \<in> target")
    case True
    with assms(1) ne nl prior have "st' = st\<lparr>last_rebalance := Some dt\<rparr>"
      by (auto simp: next_sel_def split: sum.splits)
    with assms(2) show ?thesis by (simp add: next_sel_def)
  next
    case False
    with assms(1) ne nl prior have "st' = st" "orders = []"
      by (auto simp: next_sel_def)
    with assms(2) nl prior False show ?thesis by (simp add: next_sel_def)
  qed
qed

theorem scheduler_idempotent_witness:
  "next_sel (percentile_linear 90) params1 sel_state0 feb1 universe12 =
     Inr (sel_state0\<lparr>last_rebalance := Some feb1\<rparr>,
          map (\<lambda>d. (d_name d, if d_name d = ''B'' then Fin (19 / 20) else Fin 0)) universe12)
   \<and> universe12 \<noteq> []
   \<and> next_sel (percentile_linear 90) params1 (sel_state0\<lparr>last_rebalance := Some feb1\<rparr>) feb1
        universe12 = Inr (sel_state0\<lparr>last_rebalance := Some feb1\<rparr>, [])"
  using scheduler_idempotent[OF first_call12, of universe12] first_call12
  by (simp add: universe12_def)

end
